theory Spec2Isabelle
  imports Main
begin

section \<open>Python values and exceptions\<close>

text \<open>
  The exceptions \<^verbatim>\<open>gpkg.py\<close> can raise. \<open>TypeError\<close> and
  \<open>NotImplementedError\<close> are raised by the module itself, \<open>NameError\<close> and
  \<open>KeyError\<close> by the interpreter (an unbound global name, a missing dictionary key),
  and \<open>Raised\<close> stands for any exception that comes out of a collaborator
  (\<^verbatim>\<open>process.get_raw_output\<close>, the vector writer).
\<close>

datatype error =
    TypeError string
  | NameError string
  | KeyError string
  | NotImplementedError
  | Raised string

text \<open>Configuration values: what an output configuration dictionary can hold.\<close>

datatype pyval =
    PNone
  | PBool bool
  | PInt int
  | PStr string
  | PList "pyval list"
  | PDict "(string \<times> pyval) list"

text \<open>The two types \<^verbatim>\<open>is_valid_with_config\<close> asks for: \<^verbatim>\<open>dict\<close> and \<^verbatim>\<open>str\<close>.\<close>

datatype pytype = T_dict | T_str

text \<open>\<^verbatim>\<open>d[k]\<close>: a missing key raises KeyError, a value that is no dictionary TypeError.\<close>

fun subscript :: "pyval \<Rightarrow> string \<Rightarrow> error + pyval" where
  "subscript (PDict kvs) k =
     (case map_of kvs k of None \<Rightarrow> Inl (KeyError k) | Some v \<Rightarrow> Inr v)"
| "subscript _ k = Inl (TypeError ''object is not subscriptable'')"

section \<open>The input view: \<^verbatim>\<open>class InputTile\<close>\<close>

text \<open>
  \<^verbatim>\<open>self.process\<close> is a reference to a process object. Its one method used here,
  \<^verbatim>\<open>get_raw_output(tile)\<close>, may compute, may change the process's own state
  \<open>'ps\<close> and may raise; it takes the tile and nothing else.
\<close>

record ('t, 'f, 'ps) MapcheteProcess =
  get_raw_output :: "'t \<Rightarrow> 'ps \<Rightarrow> (error + 'f list) \<times> 'ps"

text \<open>
  The view's attributes (\<^verbatim>\<open>__init__\<close>, lines 178-182): the tile, the process and
  \<^verbatim>\<open>_cache\<close>, a dictionary keyed by the \<^verbatim>\<open>validity_check\<close> flag.
\<close>

record ('t, 'f, 'ps) InputTile =
  tile :: 't
  process :: "('t, 'f, 'ps) MapcheteProcess"
  cache :: "bool \<rightharpoonup> 'f list"

text \<open>
  What lies outside the view: the state of the process, and a log with one entry (the
  tile asked for) per invocation of \<^verbatim>\<open>get_raw_output\<close>. The log is how the
  theorems below count calls.
\<close>

record ('t, 'ps) world =
  pstate :: 'ps
  raw_output_calls :: "'t list"

definition InputTile_init ::
  "'t \<Rightarrow> ('t, 'f, 'ps) MapcheteProcess \<Rightarrow> ('t, 'f, 'ps) InputTile" where
  "InputTile_init t p = \<lparr>tile = t, process = p, cache = Map.empty\<rparr>"

text \<open>
  \<^verbatim>\<open>_from_cache\<close> (lines 215-218): when the flag is no key of the cache, call
  \<^verbatim>\<open>self.process.get_raw_output(self.tile)\<close> and store what it returns under the
  flag; then return the entry. An exception of the call leaves before the store.
\<close>

definition InputTile_from_cache ::
  "('t, 'f, 'ps) InputTile \<Rightarrow> bool \<Rightarrow> ('t, 'ps) world
     \<Rightarrow> (error + 'f list) \<times> ('t, 'f, 'ps) InputTile \<times> ('t, 'ps) world" where
  "InputTile_from_cache self validity_check w =
     (case cache self validity_check of
        Some fs \<Rightarrow> (Inr fs, self, w)
      | None \<Rightarrow>
          (case get_raw_output (process self) (tile self) (pstate w) of
             (Inl e, ps') \<Rightarrow>
               (Inl e, self,
                \<lparr>pstate = ps', raw_output_calls = raw_output_calls w @ [tile self]\<rparr>)
           | (Inr fs, ps') \<Rightarrow>
               (Inr fs, self\<lparr>cache := (cache self)(validity_check \<mapsto> fs)\<rparr>,
                \<lparr>pstate = ps', raw_output_calls = raw_output_calls w @ [tile self]\<rparr>)))"

text \<open>\<^verbatim>\<open>read\<close> (lines 184-203).\<close>

definition InputTile_read ::
  "('t, 'f, 'ps) InputTile \<Rightarrow> bool \<Rightarrow> bool \<Rightarrow> ('t, 'ps) world
     \<Rightarrow> (error + 'f list) \<times> ('t, 'f, 'ps) InputTile \<times> ('t, 'ps) world" where
  "InputTile_read self validity_check no_neighbors w =
     (if no_neighbors then (Inl NotImplementedError, self, w)
      else InputTile_from_cache self validity_check w)"

text \<open>\<^verbatim>\<open>is_empty\<close> (lines 205-213): \<^verbatim>\<open>len(self._from_cache(...)) == 0\<close>.\<close>

definition InputTile_is_empty ::
  "('t, 'f, 'ps) InputTile \<Rightarrow> bool \<Rightarrow> ('t, 'ps) world
     \<Rightarrow> (error + bool) \<times> ('t, 'f, 'ps) InputTile \<times> ('t, 'ps) world" where
  "InputTile_is_empty self validity_check w =
     (case InputTile_from_cache self validity_check w of
        (Inl e, self', w') \<Rightarrow> (Inl e, self', w')
      | (Inr fs, self', w') \<Rightarrow> (Inr (length fs = 0), self', w'))"

text \<open>
  \<^verbatim>\<open>__enter__\<close> returns the view itself. \<^verbatim>\<open>__exit__(t, v, tb)\<close> (lines 224-226)
  replaces the cache by an empty dictionary whatever its arguments are, and returns
  \<^verbatim>\<open>None\<close>, so an exception of the block is not suppressed. The argument
  \<open>exc\<close> is the exception the block left with, if any.
\<close>

definition InputTile_enter :: "('t, 'f, 'ps) InputTile \<Rightarrow> ('t, 'f, 'ps) InputTile" where
  "InputTile_enter self = self"

definition InputTile_exit ::
  "('t, 'f, 'ps) InputTile \<Rightarrow> error option \<Rightarrow> ('t, 'f, 'ps) InputTile" where
  "InputTile_exit self exc = self\<lparr>cache := Map.empty\<rparr>"

text \<open>
  Python's \<^verbatim>\<open>with view as v: body\<close>: \<^verbatim>\<open>__enter__\<close>, the body, then
  \<^verbatim>\<open>__exit__\<close> on every way out of the body, with the exception when there is one;
  the body's result or exception is the statement's.
\<close>

definition with_InputTile ::
  "('t, 'f, 'ps) InputTile
     \<Rightarrow> (('t, 'f, 'ps) InputTile \<Rightarrow> ('t, 'ps) world
           \<Rightarrow> (error + 'a) \<times> ('t, 'f, 'ps) InputTile \<times> ('t, 'ps) world)
     \<Rightarrow> ('t, 'ps) world
     \<Rightarrow> (error + 'a) \<times> ('t, 'f, 'ps) InputTile \<times> ('t, 'ps) world" where
  "with_InputTile self body w =
     (case body (InputTile_enter self) w of
        (Inl e, self', w') \<Rightarrow> (Inl e, InputTile_exit self' (Some e), w')
      | (Inr r, self', w') \<Rightarrow> (Inr r, InputTile_exit self' None, w'))"

section \<open>The module's global names\<close>

text \<open>
  \<^verbatim>\<open>gpkg.py\<close> binds these global names and no other: \<^verbatim>\<open>fiona\<close>,
  \<^verbatim>\<open>logging\<close>, \<^verbatim>\<open>types\<close>, \<^verbatim>\<open>base\<close>, \<^verbatim>\<open>BufferedTile\<close> (lines 1-6),
  \<^verbatim>\<open>logger\<close>, \<^verbatim>\<open>METADATA\<close> (lines 9-14), \<^verbatim>\<open>OutputDataWriter\<close> and
  \<^verbatim>\<open>InputTile\<close>. Its functions also use three names that the file neither imports nor
  assigns: \<^verbatim>\<open>validate_values\<close> (lines 113-114), \<^verbatim>\<open>write_vector_window\<close> (line 92)
  and \<^verbatim>\<open>bucket_resource\<close> (line 97). Python looks a global name up when the
  expression is evaluated and raises NameError when it is bound nowhere.

  The functions below take the namespace as an argument, each of the three names bound
  to a value or unbound (\<open>None\<close>); \<open>gpkg_module\<close> is the namespace the file builds.
  The vector writer takes the features, the schema, the buffered tile, the path and
  the bucket resource, and returns or raises.
\<close>

datatype 't BufferedTile = BufferedTile 't int

record ('f, 't, 'p, 'b) module_namespace =
  validate_values :: "(pyval \<Rightarrow> (string \<times> pytype) list \<Rightarrow> error + unit) option"
  write_vector_window ::
    "('f list \<Rightarrow> pyval \<Rightarrow> 't BufferedTile \<Rightarrow> 'p \<Rightarrow> 'b \<Rightarrow> error + unit) option"
  bucket_resource :: "'b option"

definition gpkg_module :: "('f, 't, 'p, 'b) module_namespace" where
  "gpkg_module =
     \<lparr>validate_values = None, write_vector_window = None, bucket_resource = None\<rparr>"

section \<open>The writer: \<^verbatim>\<open>class OutputDataWriter\<close>\<close>

text \<open>
  The attributes and methods \<^verbatim>\<open>write\<close> uses come from the base class, which is
  not part of the file: \<^verbatim>\<open>self.pyramid.intersecting\<close>, \<^verbatim>\<open>self.get_path\<close>,
  \<^verbatim>\<open>self.pixelbuffer\<close> and \<^verbatim>\<open>self.output_params\<close>. They are fields here.
  \<^verbatim>\<open>self.prepare_path(tile)\<close> acts on the file system; it is an entry of the
  effect log.
\<close>

record ('t, 'p) OutputDataWriter =
  pyramid_intersecting :: "'t \<Rightarrow> 't list"
  get_path :: "'t \<Rightarrow> 'p"
  pixelbuffer :: int
  output_params :: pyval

text \<open>
  What \<^verbatim>\<open>write\<close> does to the outside, in order: a directory prepared for a tile, a
  call of the vector writer with its arguments, a debug log line.
\<close>

datatype ('t, 'p, 'f, 'b) effect =
    PreparePath 't
  | WriteVectorWindow "'f list" pyval "'t BufferedTile" 'p 'b
  | LogDebug string

text \<open>
  The shapes of the argument \<^verbatim>\<open>data\<close>: \<^verbatim>\<open>None\<close>, a list, a generator (with the
  items it would yield), any other object with a length (a tuple, a dictionary, a
  string) and any other object without one.
\<close>

datatype 'f pydata =
    DNone
  | DList "'f list"
  | DGenerator "'f list"
  | DSized nat
  | DUnsized

text \<open>\<^verbatim>\<open>len(data)\<close>: a generator has no \<^verbatim>\<open>__len__\<close>, and \<^verbatim>\<open>len\<close> raises TypeError.\<close>

fun py_len :: "'f pydata \<Rightarrow> error + nat" where
  "py_len DNone = Inl (TypeError ''object of type NoneType has no len()'')"
| "py_len (DList xs) = Inr (length xs)"
| "py_len (DGenerator xs) = Inl (TypeError ''object of type generator has no len()'')"
| "py_len (DSized n) = Inr n"
| "py_len DUnsized = Inl (TypeError ''object has no len()'')"

text \<open>
  Lines 78 and 83 together: \<^verbatim>\<open>isinstance(data, (list, types.GeneratorType))\<close>, and
  for such data \<^verbatim>\<open>list(data)\<close>; \<open>None\<close> is the failed \<^verbatim>\<open>isinstance\<close>.
\<close>

fun list_or_generator :: "'f pydata \<Rightarrow> 'f list option" where
  "list_or_generator (DList xs) = Some xs"
| "list_or_generator (DGenerator xs) = Some xs"
| "list_or_generator _ = None"

text \<open>\<^verbatim>\<open>read\<close> of the writer (lines 52-65) raises for every tile.\<close>

definition OutputDataWriter_read :: "('t, 'p) OutputDataWriter \<Rightarrow> 't \<Rightarrow> error + 'f list" where
  "OutputDataWriter_read self output_tile = Inl NotImplementedError"

text \<open>
  The loop of lines 88-98 over the intersecting tiles, with the effects so far. Per
  tile: \<^verbatim>\<open>get_path\<close>, \<^verbatim>\<open>prepare_path\<close>, \<^verbatim>\<open>BufferedTile\<close>, then the call of line
  92, which evaluates the callee \<^verbatim>\<open>write_vector_window\<close> first and the arguments in
  order after it (\<^verbatim>\<open>self.output_params["schema"]\<close>, then \<^verbatim>\<open>bucket_resource\<close> last).
  An exception ends the loop.
\<close>

fun write_tiles ::
  "('f, 't, 'p, 'b) module_namespace \<Rightarrow> ('t, 'p) OutputDataWriter \<Rightarrow> 'f list \<Rightarrow> 't list
     \<Rightarrow> ('t, 'p, 'f, 'b) effect list \<Rightarrow> (error + unit) \<times> ('t, 'p, 'f, 'b) effect list" where
  "write_tiles g self data [] effs = (Inr (), effs)"
| "write_tiles g self data (t # ts) effs =
     (let out_path = get_path self t;
          effs1 = effs @ [PreparePath t];
          out_tile = BufferedTile t (pixelbuffer self)
      in (case write_vector_window g of
           None \<Rightarrow> (Inl (NameError ''write_vector_window''), effs1)
         | Some wvw \<Rightarrow>
             (case subscript (output_params self) ''schema'' of
                Inl e \<Rightarrow> (Inl e, effs1)
              | Inr out_schema \<Rightarrow>
                  (case bucket_resource g of
                     None \<Rightarrow> (Inl (NameError ''bucket_resource''), effs1)
                   | Some b \<Rightarrow>
                       (let effs2 = effs1 @ [WriteVectorWindow data out_schema out_tile out_path b]
                        in (case wvw data out_schema out_tile out_path b of
                              Inl e \<Rightarrow> (Inl e, effs2)
                            | Inr u \<Rightarrow> write_tiles g self data ts effs2))))))"

text \<open>\<^verbatim>\<open>write\<close> (lines 67-98); the result is what it returns or raises, and its effects.\<close>

definition OutputDataWriter_write ::
  "('f, 't, 'p, 'b) module_namespace \<Rightarrow> ('t, 'p) OutputDataWriter \<Rightarrow> 't \<Rightarrow> 'f pydata
     \<Rightarrow> (error + unit) \<times> ('t, 'p, 'f, 'b) effect list" where
  "OutputDataWriter_write g self process_tile data =
     (if data = DNone then (Inr (), [])
      else
        (case py_len data of
           Inl e \<Rightarrow> (Inl e, [])
         | Inr n \<Rightarrow>
             (if n = 0 then (Inr (), [])
              else
                (case list_or_generator data of
                   None \<Rightarrow>
                     (Inl (TypeError
                        ''GPKG driver data has to be a list or generator of GeoJSON objects''),
                      [])
                 | Some items \<Rightarrow>
                     (if length items = 0 then (Inr (), [LogDebug ''no features to write''])
                      else write_tiles g self items
                             (pyramid_intersecting self process_tile) [])))))"

text \<open>The geometry types of lines 115-118.\<close>

definition geometry_types :: "string list" where
  "geometry_types =
     [''Geometry'', ''Point'', ''MultiPoint'', ''Line'', ''MultiLine'', ''Polygon'',
      ''MultiPolygon'']"

text \<open>
  \<^verbatim>\<open>is_valid_with_config\<close> (lines 100-120). Each call evaluates the callee
  \<^verbatim>\<open>validate_values\<close> first, then its arguments.
\<close>

definition OutputDataWriter_is_valid_with_config ::
  "('f, 't, 'p, 'b) module_namespace \<Rightarrow> pyval \<Rightarrow> error + bool" where
  "OutputDataWriter_is_valid_with_config g config =
     (case validate_values g of
        None \<Rightarrow> Inl (NameError ''validate_values'')
      | Some vv \<Rightarrow>
          (case vv config [(''schema'', T_dict), (''path'', T_str)] of
             Inl e \<Rightarrow> Inl e
           | Inr u \<Rightarrow>
               (case subscript config ''schema'' of
                  Inl e \<Rightarrow> Inl e
                | Inr sch \<Rightarrow>
                    (case vv sch [(''properties'', T_dict), (''geometry'', T_str)] of
                       Inl e \<Rightarrow> Inl e
                     | Inr u' \<Rightarrow>
                         (case subscript sch ''geometry'' of
                            Inl e \<Rightarrow> Inl e
                          | Inr geom \<Rightarrow>
                              (if geom \<in> set (map PStr geometry_types) then Inr True
                               else Inl (TypeError ''invalid geometry type'')))))))"

text \<open>\<^verbatim>\<open>open\<close> (lines 151-160) builds a view, its cache empty.\<close>

definition OutputDataWriter_open ::
  "('t, 'p) OutputDataWriter \<Rightarrow> 't \<Rightarrow> ('t, 'f, 'ps) MapcheteProcess \<Rightarrow> ('t, 'f, 'ps) InputTile" where
  "OutputDataWriter_open self t p = InputTile_init t p"

section \<open>Concrete objects\<close>

text \<open>
  A tile, two processes (one that returns a feature, one that raises), a world in
  which nothing has been called yet, a writer whose pyramid maps every process tile
  to two output tiles, and a well-formed output configuration.
\<close>

definition example_tile :: "nat \<times> nat \<times> nat" where
  "example_tile = (5, 3, 2)"

definition example_process :: "(nat \<times> nat \<times> nat, string, nat) MapcheteProcess" where
  "example_process = \<lparr>get_raw_output = (\<lambda>t n. (Inr [''feature''], Suc n))\<rparr>"

definition failing_process :: "(nat \<times> nat \<times> nat, string, nat) MapcheteProcess" where
  "failing_process =
     \<lparr>get_raw_output = (\<lambda>t n. (Inl (Raised ''process failed''), Suc n))\<rparr>"

definition example_world :: "(nat \<times> nat \<times> nat, nat) world" where
  "example_world = \<lparr>pstate = 0, raw_output_calls = []\<rparr>"

definition example_config :: pyval where
  "example_config =
     PDict [(''schema'', PDict [(''properties'', PDict [(''id'', PStr ''int'')]),
                               (''geometry'', PStr ''Polygon'')]),
            (''path'', PStr ''out.gpkg'')]"

definition example_writer ::
  "(nat \<times> nat \<times> nat, string \<times> nat \<times> nat \<times> nat) OutputDataWriter" where
  "example_writer =
     \<lparr>pyramid_intersecting = (\<lambda>t. [(5, 3, 2), (5, 3, 3)]),
      get_path = (\<lambda>t. (''out.gpkg'', t)),
      pixelbuffer = 0,
      output_params = example_config\<rparr>"

text \<open>
  Modelled from the spec: \<^verbatim>\<open>validate_values\<close>, the helper that checks key-type
  pairs, is not part of the file. By section 4.1 of the spec it requires the
  configuration to hold every listed key with a value of the listed type, and fails
  with an error naming the key otherwise. It only serves as a binding for the name in
  \<open>bound_module\<close>.
\<close>

fun has_pytype :: "pyval \<Rightarrow> pytype \<Rightarrow> bool" where
  "has_pytype (PDict kvs) T_dict = True"
| "has_pytype (PStr x) T_str = True"
| "has_pytype v ty = False"

fun spec_validate_values :: "pyval \<Rightarrow> (string \<times> pytype) list \<Rightarrow> error + unit" where
  "spec_validate_values config [] = Inr ()"
| "spec_validate_values config ((k, ty) # rest) =
     (case subscript config k of
        Inl e \<Rightarrow> Inl (Raised k)
      | Inr v \<Rightarrow>
          (if has_pytype v ty then spec_validate_values config rest else Inl (Raised k)))"

text \<open>
  A namespace other than the file's own, in which the three names are bound: the
  helper above, a vector writer that always returns, and a bucket resource.
\<close>

definition bound_module ::
  "(string, nat \<times> nat \<times> nat, string \<times> nat \<times> nat \<times> nat, unit) module_namespace" where
  "bound_module =
     \<lparr>validate_values = Some spec_validate_values,
      write_vector_window = Some (\<lambda>in_data out_schema out_tile out_path bucket. Inr ()),
      bucket_resource = Some ()\<rparr>"

section \<open>The cache of the input view\<close>

lemma from_cache_hit:
  "cache v flag = Some fs \<Longrightarrow> InputTile_from_cache v flag w = (Inr fs, v, w)"
  by (simp add: InputTile_from_cache_def)

lemma from_cache_miss_calls:
  "cache v flag = None \<Longrightarrow>
     raw_output_calls (snd (snd (InputTile_from_cache v flag w))) = raw_output_calls w @ [tile v]"
  by (simp add: InputTile_from_cache_def split: prod.splits sum.splits)

lemma from_cache_miss_ok:
  "cache v flag = None \<Longrightarrow> InputTile_from_cache v flag w = (Inr fs, v1, w1) \<Longrightarrow>
     v1 = v\<lparr>cache := (cache v)(flag \<mapsto> fs)\<rparr> \<and>
     raw_output_calls w1 = raw_output_calls w @ [tile v] \<and>
     get_raw_output (process v) (tile v) (pstate w) = (Inr fs, pstate w1)"
  by (auto simp add: InputTile_from_cache_def split: prod.splits sum.splits)

lemma from_cache_miss_result:
  "cache v flag = None \<Longrightarrow>
     fst (InputTile_from_cache v flag w) = fst (get_raw_output (process v) (tile v) (pstate w))"
  by (cases "get_raw_output (process v) (tile v) (pstate w)")
     (simp add: InputTile_from_cache_def split: sum.splits)

lemma from_cache_miss_world:
  "cache v flag = None \<Longrightarrow>
     snd (snd (InputTile_from_cache v flag w)) =
       \<lparr>pstate = snd (get_raw_output (process v) (tile v) (pstate w)),
        raw_output_calls = raw_output_calls w @ [tile v]\<rparr>"
  by (cases "get_raw_output (process v) (tile v) (pstate w)")
     (simp add: InputTile_from_cache_def split: sum.splits)

lemma from_cache_view:
  "InputTile_from_cache v flag w = (r, v1, w1) \<Longrightarrow>
     tile v1 = tile v \<and> process v1 = process v \<and> cache v1 (\<not> flag) = cache v (\<not> flag)"
  by (cases "get_raw_output (process v) (tile v) (pstate w)")
     (auto simp add: InputTile_from_cache_def split: option.splits sum.splits)

text \<open>
  C2. On a view that has cached nothing yet, a read that returns stores its list under
  its flag after one call of \<^verbatim>\<open>get_raw_output\<close>; a second read with the same flag
  returns the same list and changes neither the view nor the world (no further call).
  A read with the other flag then makes one call of its own and, when it returns, is
  cached under its own key beside the first entry.
\<close>

theorem read_twice_one_call:
  assumes fresh: "cache v = Map.empty"
    and first: "InputTile_read v flag False w = (Inr fs, v1, w1)"
  shows "InputTile_read v1 flag False w1 = (Inr fs, v1, w1) \<and>
         raw_output_calls w1 = raw_output_calls w @ [tile v] \<and>
         cache v1 = [flag \<mapsto> fs] \<and>
         raw_output_calls (snd (snd (InputTile_read v1 (\<not> flag) False w1)))
           = raw_output_calls w1 @ [tile v] \<and>
         (case InputTile_read v1 (\<not> flag) False w1 of
            (Inr gs, v2, w2) \<Rightarrow> cache v2 = [flag \<mapsto> fs, (\<not> flag) \<mapsto> gs]
          | (Inl e, v2, w2) \<Rightarrow> cache v2 = [flag \<mapsto> fs])"
proof -
  have miss: "cache v flag = None" using fresh by simp
  from first have fc: "InputTile_from_cache v flag w = (Inr fs, v1, w1)"
    by (simp add: InputTile_read_def)
  from from_cache_miss_ok [OF miss fc]
  have v1: "v1 = v\<lparr>cache := (cache v)(flag \<mapsto> fs)\<rparr>"
    and c1: "raw_output_calls w1 = raw_output_calls w @ [tile v]" by simp_all
  have cv1: "cache v1 = [flag \<mapsto> fs]" using v1 fresh by simp
  have t1: "tile v1 = tile v" using v1 by simp
  have again: "InputTile_read v1 flag False w1 = (Inr fs, v1, w1)"
    using cv1 by (simp add: InputTile_read_def from_cache_hit)
  have other_miss: "cache v1 (\<not> flag) = None" using cv1 by simp
  have other_calls: "raw_output_calls (snd (snd (InputTile_read v1 (\<not> flag) False w1)))
           = raw_output_calls w1 @ [tile v]"
    using from_cache_miss_calls [OF other_miss, of w1] t1 by (simp add: InputTile_read_def)
  have other_cache: "(case InputTile_read v1 (\<not> flag) False w1 of
            (Inr gs, v2, w2) \<Rightarrow> cache v2 = [flag \<mapsto> fs, (\<not> flag) \<mapsto> gs]
          | (Inl e, v2, w2) \<Rightarrow> cache v2 = [flag \<mapsto> fs])"
    using other_miss cv1
    by (simp add: InputTile_read_def InputTile_from_cache_def split: prod.splits sum.splits)
  show ?thesis using again c1 cv1 other_calls other_cache by simp
qed

theorem read_twice_one_call_witness:
  "cache (InputTile_init example_tile example_process) = Map.empty \<and>
   InputTile_read (InputTile_init example_tile example_process) True False example_world
     = (Inr [''feature''],
        \<lparr>tile = example_tile, process = example_process, cache = [True \<mapsto> [''feature'']]\<rparr>,
        \<lparr>pstate = 1, raw_output_calls = [example_tile]\<rparr>) \<and>
   InputTile_read
       \<lparr>tile = example_tile, process = example_process, cache = [True \<mapsto> [''feature'']]\<rparr>
       True False \<lparr>pstate = 1, raw_output_calls = [example_tile]\<rparr>
     = (Inr [''feature''],
        \<lparr>tile = example_tile, process = example_process, cache = [True \<mapsto> [''feature'']]\<rparr>,
        \<lparr>pstate = 1, raw_output_calls = [example_tile]\<rparr>) \<and>
   raw_output_calls
       (snd (snd (InputTile_read
          \<lparr>tile = example_tile, process = example_process, cache = [True \<mapsto> [''feature'']]\<rparr>
          False False \<lparr>pstate = 1, raw_output_calls = [example_tile]\<rparr>)))
     = [example_tile, example_tile]"
proof -
  have h1: "cache (InputTile_init example_tile example_process) = Map.empty"
    by (simp add: InputTile_init_def)
  have h2: "InputTile_read (InputTile_init example_tile example_process) True False example_world
     = (Inr [''feature''],
        \<lparr>tile = example_tile, process = example_process, cache = [True \<mapsto> [''feature'']]\<rparr>,
        \<lparr>pstate = 1, raw_output_calls = [example_tile]\<rparr>)"
    by (simp add: InputTile_read_def InputTile_from_cache_def InputTile_init_def
        example_process_def example_world_def)
  show ?thesis
    using read_twice_one_call [OF h1 h2] h1 h2 by (simp add: InputTile_init_def)
qed

text \<open>
  C6. \<^verbatim>\<open>__exit__\<close> empties the cache whatever exception it is handed, so the view
  that a \<^verbatim>\<open>with\<close> block leaves behind has an empty cache on the normal and on the
  exceptional way out; the next read on the re-entered view, for either flag, calls
  \<^verbatim>\<open>get_raw_output\<close> once more.
\<close>

theorem exit_clears_cache:
  "cache (InputTile_exit v exc) = Map.empty \<and>
   cache (fst (snd (with_InputTile v body w))) = Map.empty \<and>
   raw_output_calls
     (snd (snd (InputTile_read (InputTile_enter (InputTile_exit v exc)) flag False w)))
     = raw_output_calls w @ [tile v]"
proof -
  have a: "cache (InputTile_exit v exc) = Map.empty"
    by (simp add: InputTile_exit_def)
  have b: "cache (fst (snd (with_InputTile v body w))) = Map.empty"
    by (simp add: with_InputTile_def InputTile_exit_def split: prod.splits sum.splits)
  have miss: "cache (InputTile_enter (InputTile_exit v exc)) flag = None"
    by (simp add: InputTile_enter_def InputTile_exit_def)
  have t: "tile (InputTile_enter (InputTile_exit v exc)) = tile v"
    by (simp add: InputTile_enter_def InputTile_exit_def)
  have c: "raw_output_calls
     (snd (snd (InputTile_read (InputTile_enter (InputTile_exit v exc)) flag False w)))
     = raw_output_calls w @ [tile v]"
    using from_cache_miss_calls [OF miss, of w] t by (simp add: InputTile_read_def)
  show ?thesis using a b c by simp
qed

text \<open>
  C7. \<^verbatim>\<open>is_empty\<close> is \<^verbatim>\<open>read\<close> followed by the test for zero records: it raises
  what \<^verbatim>\<open>read\<close> raises, returns true exactly when \<^verbatim>\<open>read\<close> returns the empty
  list, and leaves the same view and the same world, so it makes the same calls of
  \<^verbatim>\<open>get_raw_output\<close>.
\<close>

theorem is_empty_agrees_with_read:
  "InputTile_is_empty v flag w =
     (case InputTile_read v flag False w of
        (Inl e, v', w') \<Rightarrow> (Inl e, v', w')
      | (Inr fs, v', w') \<Rightarrow> (Inr (fs = []), v', w'))"
  by (simp add: InputTile_is_empty_def InputTile_read_def split: prod.splits sum.splits)

text \<open>
  C8. When the flag is not cached and \<^verbatim>\<open>get_raw_output\<close> raises, \<^verbatim>\<open>read\<close> and
  \<^verbatim>\<open>is_empty\<close> raise the same exception, the view (its cache included) is what it
  was, one call has been made, and a read with the same flag afterwards calls
  \<^verbatim>\<open>get_raw_output\<close> again.
\<close>

theorem failure_propagates_cache_unchanged:
  assumes miss: "cache v flag = None"
    and fails: "get_raw_output (process v) (tile v) (pstate w) = (Inl e, ps')"
  shows "InputTile_read v flag False w =
           (Inl e, v, \<lparr>pstate = ps', raw_output_calls = raw_output_calls w @ [tile v]\<rparr>) \<and>
         InputTile_is_empty v flag w =
           (Inl e, v, \<lparr>pstate = ps', raw_output_calls = raw_output_calls w @ [tile v]\<rparr>) \<and>
         raw_output_calls (snd (snd (InputTile_read v flag False
            \<lparr>pstate = ps', raw_output_calls = raw_output_calls w @ [tile v]\<rparr>)))
           = raw_output_calls w @ [tile v, tile v]"
proof -
  have r: "InputTile_from_cache v flag w =
           (Inl e, v, \<lparr>pstate = ps', raw_output_calls = raw_output_calls w @ [tile v]\<rparr>)"
    using miss fails by (simp add: InputTile_from_cache_def)
  have again: "raw_output_calls (snd (snd (InputTile_from_cache v flag
            \<lparr>pstate = ps', raw_output_calls = raw_output_calls w @ [tile v]\<rparr>)))
           = raw_output_calls w @ [tile v, tile v]"
    using from_cache_miss_calls
      [OF miss, of "\<lparr>pstate = ps', raw_output_calls = raw_output_calls w @ [tile v]\<rparr>"]
    by simp
  show ?thesis using r again by (simp add: InputTile_read_def InputTile_is_empty_def)
qed

theorem failure_propagates_cache_unchanged_witness:
  "cache (InputTile_init example_tile failing_process) True = None \<and>
   get_raw_output failing_process example_tile 0 = (Inl (Raised ''process failed''), 1) \<and>
   InputTile_read (InputTile_init example_tile failing_process) True False example_world
     = (Inl (Raised ''process failed''), InputTile_init example_tile failing_process,
        \<lparr>pstate = 1, raw_output_calls = [example_tile]\<rparr>) \<and>
   InputTile_is_empty (InputTile_init example_tile failing_process) True example_world
     = (Inl (Raised ''process failed''), InputTile_init example_tile failing_process,
        \<lparr>pstate = 1, raw_output_calls = [example_tile]\<rparr>) \<and>
   raw_output_calls
       (snd (snd (InputTile_read (InputTile_init example_tile failing_process) True False
          \<lparr>pstate = 1, raw_output_calls = [example_tile]\<rparr>)))
     = [example_tile, example_tile]"
proof -
  have h1: "cache (InputTile_init example_tile failing_process) True = None"
    by (simp add: InputTile_init_def)
  have h2: "get_raw_output (process (InputTile_init example_tile failing_process))
              (tile (InputTile_init example_tile failing_process)) (pstate example_world)
            = (Inl (Raised ''process failed''), 1)"
    by (simp add: InputTile_init_def failing_process_def example_world_def)
  have h3: "get_raw_output failing_process example_tile 0 = (Inl (Raised ''process failed''), 1)"
    by (simp add: failing_process_def)
  have t: "tile (InputTile_init example_tile failing_process) = example_tile"
    by (simp add: InputTile_init_def)
  have c: "raw_output_calls example_world = []"
    by (simp add: example_world_def)
  show ?thesis
    using failure_propagates_cache_unchanged [OF h1 h2] h1 h3 t c by simp
qed

text \<open>
  C9. The writer's \<^verbatim>\<open>read\<close> raises NotImplementedError for every tile, and the
  view's \<^verbatim>\<open>read\<close> with \<^verbatim>\<open>no_neighbors\<close> set raises it with the view and the
  world untouched: no cache access, no call of the process.
\<close>

theorem unsupported_reads_raise:
  "OutputDataWriter_read self output_tile = Inl NotImplementedError \<and>
   InputTile_read v flag True w = (Inl NotImplementedError, v, w)"
  by (simp add: OutputDataWriter_read_def InputTile_read_def)

text \<open>
  C10. The flag is no argument of \<^verbatim>\<open>get_raw_output\<close>. On a view with an empty
  cache a read returns (or raises) just what \<^verbatim>\<open>get_raw_output(tile)\<close> does from
  the current state of the process, for either flag, and leaves the same world for
  either flag. With a process whose result depends on the tile alone, a read with one
  flag followed by a read with the other on the same view gives the same result twice.
\<close>

theorem flag_does_not_reach_process:
  assumes fresh: "cache v = Map.empty"
    and det: "\<And>ps ps'. fst (get_raw_output (process v) (tile v) ps)
                      = fst (get_raw_output (process v) (tile v) ps')"
  shows "fst (InputTile_read v flag False w)
           = fst (get_raw_output (process v) (tile v) (pstate w)) \<and>
         fst (InputTile_read v True False w) = fst (InputTile_read v False False w) \<and>
         snd (snd (InputTile_read v True False w)) = snd (snd (InputTile_read v False False w)) \<and>
         (case InputTile_read v flag False w of
            (r1, v1, w1) \<Rightarrow> fst (InputTile_read v1 (\<not> flag) False w1) = r1)"
proof -
  have miss: "\<And>b. cache v b = None" using fresh by simp
  have raw: "\<And>b. fst (InputTile_read v b False w)
      = fst (get_raw_output (process v) (tile v) (pstate w))"
    using from_cache_miss_result [OF miss] by (simp add: InputTile_read_def)
  have wd: "\<And>b. snd (snd (InputTile_read v b False w))
      = \<lparr>pstate = snd (get_raw_output (process v) (tile v) (pstate w)),
          raw_output_calls = raw_output_calls w @ [tile v]\<rparr>"
    using from_cache_miss_world [OF miss] by (simp add: InputTile_read_def)
  obtain r1 v1 w1 where first: "InputTile_from_cache v flag w = (r1, v1, w1)"
    by (cases "InputTile_from_cache v flag w") auto
  have r1: "r1 = fst (get_raw_output (process v) (tile v) (pstate w))"
    using from_cache_miss_result [OF miss, of flag w] first by simp
  from from_cache_view [OF first]
  have same: "tile v1 = tile v" "process v1 = process v"
    and miss1: "cache v1 (\<not> flag) = None"
    using miss by simp_all
  have "fst (InputTile_from_cache v1 (\<not> flag) w1)
          = fst (get_raw_output (process v) (tile v) (pstate w1))"
    using from_cache_miss_result [OF miss1, of w1] same by simp
  also have "\<dots> = r1" using det [of "pstate w1" "pstate w"] r1 by simp
  finally have seq: "fst (InputTile_read v1 (\<not> flag) False w1) = r1"
    by (simp add: InputTile_read_def)
  show ?thesis using raw wd first seq r1 by (simp add: InputTile_read_def)
qed

theorem flag_does_not_reach_process_witness:
  "cache (InputTile_init example_tile example_process) = Map.empty \<and>
   fst (InputTile_read (InputTile_init example_tile example_process) True False example_world)
     = Inr [''feature''] \<and>
   fst (InputTile_read (InputTile_init example_tile example_process) False False example_world)
     = Inr [''feature''] \<and>
   fst (InputTile_read
          \<lparr>tile = example_tile, process = example_process, cache = [True \<mapsto> [''feature'']]\<rparr>
          False False \<lparr>pstate = 1, raw_output_calls = [example_tile]\<rparr>)
     = Inr [''feature'']"
proof -
  have h1: "cache (InputTile_init example_tile example_process) = Map.empty"
    by (simp add: InputTile_init_def)
  have h2: "\<And>ps ps'.
      fst (get_raw_output (process (InputTile_init example_tile example_process))
             (tile (InputTile_init example_tile example_process)) ps)
      = fst (get_raw_output (process (InputTile_init example_tile example_process))
             (tile (InputTile_init example_tile example_process)) ps')"
    by (simp add: InputTile_init_def example_process_def)
  have r: "InputTile_read (InputTile_init example_tile example_process) True False example_world
     = (Inr [''feature''],
        \<lparr>tile = example_tile, process = example_process, cache = [True \<mapsto> [''feature'']]\<rparr>,
        \<lparr>pstate = 1, raw_output_calls = [example_tile]\<rparr>)"
    by (simp add: InputTile_read_def InputTile_from_cache_def InputTile_init_def
        example_process_def example_world_def)
  have r': "fst (InputTile_read (InputTile_init example_tile example_process) False False
                 example_world) = Inr [''feature'']"
    by (simp add: InputTile_read_def InputTile_from_cache_def InputTile_init_def
        example_process_def example_world_def)
  note th = flag_does_not_reach_process [OF h1 h2, of True example_world]
  have s: "fst (InputTile_read
          \<lparr>tile = example_tile, process = example_process, cache = [True \<mapsto> [''feature'']]\<rparr>
          False False \<lparr>pstate = 1, raw_output_calls = [example_tile]\<rparr>)
     = Inr [''feature'']"
    using th [THEN conjunct2, THEN conjunct2, THEN conjunct2] by (simp add: r)
  show ?thesis using h1 r r' s by simp
qed

section \<open>The writer\<close>

text \<open>
  C5. \<^verbatim>\<open>write\<close> with \<^verbatim>\<open>None\<close> or with the empty list returns with no effect at
  all: no path prepared, no call of the vector writer, no log line; this holds in
  every namespace, for every writer and every process tile.
\<close>

theorem write_nothing_no_effects:
  "OutputDataWriter_write g self process_tile DNone = (Inr (), []) \<and>
   OutputDataWriter_write g self process_tile (DList []) = (Inr (), [])"
  by (simp add: OutputDataWriter_write_def)

text \<open>
  C4. A generator never gets as far as the \<^verbatim>\<open>isinstance\<close> test that would accept
  it: \<^verbatim>\<open>len(data)\<close> of line 76 raises TypeError for every generator, whatever it
  would yield, before anything is materialised or written.
\<close>

theorem write_generator_raises_TypeError:
  "OutputDataWriter_write g self process_tile (DGenerator xs)
     = (Inl (TypeError ''object of type generator has no len()''), [])"
  by (simp add: OutputDataWriter_write_def)

text \<open>
  C1. In the namespace the file builds, \<^verbatim>\<open>write\<close> with a list of one feature and a
  pyramid that gives two intersecting tiles prepares the path of the first tile and
  then raises NameError at line 92, where \<^verbatim>\<open>write_vector_window\<close> is unbound: the
  vector writer is never called and the second tile is never reached.
\<close>

theorem write_list_raises_NameError:
  "OutputDataWriter_write gpkg_module example_writer (4, 1, 1) (DList [''feature''])
     = (Inl (NameError ''write_vector_window''), [PreparePath (5, 3, 2)])"
  by (simp add: OutputDataWriter_write_def gpkg_module_def example_writer_def)

text \<open>
  C3. In the namespace the file builds, \<^verbatim>\<open>is_valid_with_config\<close> raises NameError
  at line 113, where \<^verbatim>\<open>validate_values\<close> is unbound, for a configuration with a
  mapping schema, mapping properties, the geometry Polygon and a string path.
\<close>

theorem is_valid_with_config_raises_NameError:
  "OutputDataWriter_is_valid_with_config gpkg_module example_config
     = Inl (NameError ''validate_values'')"
  by (simp add: OutputDataWriter_is_valid_with_config_def gpkg_module_def)

section \<open>The writer in a namespace that binds the names\<close>

lemma write_tiles_bound:
  assumes wvw: "write_vector_window g = Some wvw"
    and b: "bucket_resource g = Some b"
    and sch: "subscript (output_params self) ''schema'' = Inr sch"
    and ok: "\<And>t. wvw data sch (BufferedTile t (pixelbuffer self)) (get_path self t) b = Inr ()"
  shows "write_tiles g self data ts effs =
           (Inr (), effs @ concat (map (\<lambda>t. [PreparePath t,
              WriteVectorWindow data sch (BufferedTile t (pixelbuffer self)) (get_path self t) b])
              ts))"
  using assms by (induction ts arbitrary: effs) simp_all

text \<open>
  Were \<^verbatim>\<open>write_vector_window\<close> and \<^verbatim>\<open>bucket_resource\<close> bound, the output
  parameters holding a schema and the vector writer returning for every tile, then
  \<^verbatim>\<open>write\<close> with a non-empty list would, for each tile of
  \<^verbatim>\<open>pyramid.intersecting(process_tile)\<close> in order, prepare the tile's path and call
  the vector writer once with the whole list, the schema, the buffered tile and
  \<^verbatim>\<open>get_path(tile)\<close>, and do nothing else.
\<close>

theorem write_fans_out_when_names_bound:
  assumes wvw: "write_vector_window g = Some wvw"
    and b: "bucket_resource g = Some b"
    and sch: "subscript (output_params self) ''schema'' = Inr sch"
    and ok: "\<And>t. wvw (x # xs) sch (BufferedTile t (pixelbuffer self)) (get_path self t) b = Inr ()"
  shows "OutputDataWriter_write g self process_tile (DList (x # xs)) =
           (Inr (), concat (map (\<lambda>t. [PreparePath t,
              WriteVectorWindow (x # xs) sch (BufferedTile t (pixelbuffer self))
                (get_path self t) b])
              (pyramid_intersecting self process_tile)))"
  using write_tiles_bound [OF wvw b sch ok, of "pyramid_intersecting self process_tile" "[]"]
  by (simp add: OutputDataWriter_write_def)

theorem write_fans_out_when_names_bound_witness:
  "write_vector_window bound_module
     = Some (\<lambda>in_data out_schema out_tile out_path bucket. Inr ()) \<and>
   bucket_resource bound_module = Some () \<and>
   OutputDataWriter_write bound_module example_writer (4, 1, 1) (DList [''feature'']) =
     (Inr (),
      [PreparePath (5, 3, 2),
       WriteVectorWindow [''feature'']
         (PDict [(''properties'', PDict [(''id'', PStr ''int'')]), (''geometry'', PStr ''Polygon'')])
         (BufferedTile (5, 3, 2) 0) (''out.gpkg'', 5, 3, 2) (),
       PreparePath (5, 3, 3),
       WriteVectorWindow [''feature'']
         (PDict [(''properties'', PDict [(''id'', PStr ''int'')]), (''geometry'', PStr ''Polygon'')])
         (BufferedTile (5, 3, 3) 0) (''out.gpkg'', 5, 3, 3) ()])"
proof -
  have h1: "write_vector_window bound_module
     = Some (\<lambda>in_data out_schema out_tile out_path bucket. Inr ())"
    by (simp add: bound_module_def)
  have h2: "bucket_resource bound_module = Some ()"
    by (simp add: bound_module_def)
  have h3: "subscript (output_params example_writer) ''schema''
     = Inr (PDict [(''properties'', PDict [(''id'', PStr ''int'')]),
                   (''geometry'', PStr ''Polygon'')])"
    by (simp add: example_writer_def example_config_def)
  have h4: "\<And>t. (\<lambda>in_data out_schema out_tile out_path bucket. Inr ())
              [''feature'']
              (PDict [(''properties'', PDict [(''id'', PStr ''int'')]),
                      (''geometry'', PStr ''Polygon'')])
              (BufferedTile t (pixelbuffer example_writer)) (get_path example_writer t) ()
            = (Inr () :: error + unit)"
    by simp
  show ?thesis
    using write_fans_out_when_names_bound
      [OF h1 h2 h3 h4, where process_tile = "(4, 1, 1)"] h1 h2
    by (simp add: example_writer_def)
qed

text \<open>
  Were \<^verbatim>\<open>validate_values\<close> bound and both of its checks passed, then
  \<^verbatim>\<open>is_valid_with_config\<close> would return true when the schema's geometry is one of
  the seven geometry types and raise TypeError otherwise.
\<close>

theorem is_valid_with_config_when_name_bound:
  assumes vv: "validate_values g = Some vv"
    and ok1: "vv config [(''schema'', T_dict), (''path'', T_str)] = Inr ()"
    and sch: "subscript config ''schema'' = Inr sch"
    and ok2: "vv sch [(''properties'', T_dict), (''geometry'', T_str)] = Inr ()"
    and geom: "subscript sch ''geometry'' = Inr geom"
  shows "OutputDataWriter_is_valid_with_config g config =
           (if geom \<in> set (map PStr geometry_types) then Inr True
            else Inl (TypeError ''invalid geometry type''))"
  using assms by (simp add: OutputDataWriter_is_valid_with_config_def)

theorem is_valid_with_config_when_name_bound_witness:
  "validate_values bound_module = Some spec_validate_values \<and>
   spec_validate_values example_config [(''schema'', T_dict), (''path'', T_str)] = Inr () \<and>
   OutputDataWriter_is_valid_with_config bound_module example_config = Inr True"
proof -
  have h1: "validate_values bound_module = Some spec_validate_values"
    by (simp add: bound_module_def)
  have h2: "spec_validate_values example_config [(''schema'', T_dict), (''path'', T_str)]
              = Inr ()"
    by (simp add: example_config_def)
  have h3: "subscript example_config ''schema''
     = Inr (PDict [(''properties'', PDict [(''id'', PStr ''int'')]),
                   (''geometry'', PStr ''Polygon'')])"
    by (simp add: example_config_def)
  have h4: "spec_validate_values
              (PDict [(''properties'', PDict [(''id'', PStr ''int'')]),
                      (''geometry'', PStr ''Polygon'')])
              [(''properties'', T_dict), (''geometry'', T_str)] = Inr ()"
    by simp
  have h5: "subscript
              (PDict [(''properties'', PDict [(''id'', PStr ''int'')]),
                      (''geometry'', PStr ''Polygon'')]) ''geometry''
            = Inr (PStr ''Polygon'')"
    by simp
  show ?thesis
    using is_valid_with_config_when_name_bound [OF h1 h2 h3 h4 h5] h1 h2
    by (simp add: geometry_types_def)
qed

text \<open>
  In every namespace and for every configuration, \<^verbatim>\<open>is_valid_with_config\<close>
  returns true or raises; it never returns false.
\<close>

theorem is_valid_with_config_never_False:
  "OutputDataWriter_is_valid_with_config g config \<noteq> Inr False"
  by (simp add: OutputDataWriter_is_valid_with_config_def split: option.splits sum.splits)

end
